theory Spec2Isabelle
  imports Complex_Main "HOL-Library.Log_Nat" "HOL-Library.Word"
begin

section \<open>JavaScript values, numbers and strings\<close>

text \<open>
  The program is TypeScript on Node.js.  A number is an IEEE double: it is modelled by
  the rational it denotes, every arithmetic result being rounded to the nearest double
  (\<open>binary64\<close> below), and by the type \<open>jsnum\<close> where the code can produce \<open>NaN\<close>.
  Sums of integers below \<open>2^53\<close> are exact and are written with \<open>+\<close>.  The
  quantities of this program (scores, counts, seconds) stay far inside the range of
  the doubles, so overflow to infinity is not modelled.  A string is a list of
  code units below 256; dates are numeric timestamps, and the Mongo collections are
  lists of documents.  Calls to the logger, an outside collaborator, are left out.
\<close>

datatype jsnum = NaN | Fin rat

text \<open>\<open>Math.round\<close>: the nearest integer, a tie going up.\<close>

definition Math_round :: "rat \<Rightarrow> int" where
  "Math_round x = \<lfloor>x + 1 / 2\<rfloor>"

text \<open>
  The double nearest to a rational: 53 significant bits, a tie going to the even
  significand; below \<open>2^-1022\<close> the spacing stays \<open>2^-1074\<close>.
\<close>

definition round_half_even :: "rat \<Rightarrow> int" where
  "round_half_even x =
     (let f = \<lfloor>x\<rfloor>; d = x - of_int f in
      if d < 1 / 2 then f else if 1 / 2 < d then f + 1 else if even f then f else f + 1)"

definition pow2 :: "int \<Rightarrow> rat" where
  "pow2 e = (if 0 \<le> e then 2 ^ nat e else 1 / 2 ^ nat (- e))"

text \<open>The integer part of the binary logarithm of a positive rational.\<close>

definition ilog2 :: "rat \<Rightarrow> int" where
  "ilog2 x =
     (let (p, q) = quotient_of x; k = bitlen p - bitlen q in if x < pow2 k then k - 1 else k)"

definition binary64 :: "rat \<Rightarrow> rat" where
  "binary64 x =
     (if x = 0 then 0
      else
        let e = max (ilog2 \<bar>x\<bar> - 52) (- 1074);
            m = round_half_even (\<bar>x\<bar> / pow2 e)
        in sgn x * of_int m * pow2 e)"

text \<open>The operators \<open>+\<close>, \<open>*\<close> and \<open>/\<close> on doubles (the divisor not zero).\<close>

definition fadd :: "rat \<Rightarrow> rat \<Rightarrow> rat" where
  "fadd x y = binary64 (x + y)"

definition fmul :: "rat \<Rightarrow> rat \<Rightarrow> rat" where
  "fmul x y = binary64 (x * y)"

definition fdiv :: "rat \<Rightarrow> rat \<Rightarrow> rat" where
  "fdiv x y = binary64 (x / y)"

text \<open>
  A value of type \<open>any\<close> as a request body can carry it: a number (in this model an
  integer of 32 bits, read as signed), a string, a boolean, or \<open>null\<close>/\<open>undefined\<close>
  (\<open>JNull\<close>).  The operator \<open>===\<close> on these values is equality of the datatype.
\<close>

datatype jsvalue = JNum "32 word" | JStr string | JBool bool | JNull

datatype exn = TypeError | ReferenceError | ValidationError

text \<open>The decimal digits of a number, as \<open>Number.prototype.toString\<close> prints an integer.\<close>

definition digit :: "nat \<Rightarrow> char" where
  "digit d = char_of (48 + d)"

fun decimal :: "nat \<Rightarrow> string" where
  "decimal n = (if 10 \<le> n then decimal (n div 10) @ [digit (n mod 10)] else [digit n])"

text \<open>\<open>v.toString()\<close>; it throws a \<open>TypeError\<close> on \<open>null\<close> and \<open>undefined\<close>.\<close>

fun toString :: "jsvalue \<Rightarrow> exn + string" where
  "toString (JNum w) =
     Inr (if sint w < 0 then CHR ''-'' # decimal (nat (- sint w)) else decimal (nat (sint w)))"
| "toString (JStr s) = Inr s"
| "toString (JBool b) = Inr (if b then ''true'' else ''false'')"
| "toString JNull = Inl TypeError"

text \<open>
  \<open>toLowerCase\<close> on code units below 256: the letters A to Z, and the capital letters
  from U+00C0 to U+00DE (the multiplication sign U+00D7 is none).
\<close>

definition toLowerCase_char :: "char \<Rightarrow> char" where
  "toLowerCase_char c =
     (let n = (of_char c :: nat) in
      if (65 \<le> n \<and> n \<le> 90) \<or> (192 \<le> n \<and> n \<le> 222 \<and> n \<noteq> 215) then char_of (n + 32)
      else c)"

definition toLowerCase :: "string \<Rightarrow> string" where
  "toLowerCase s = map toLowerCase_char s"

text \<open>
  White space (\<open>\s\<close>, and what \<open>trim\<close> removes) below 256: tab, LF, VT, FF, CR, the
  space and the no-break space U+00A0.
\<close>

definition is_space :: "char \<Rightarrow> bool" where
  "is_space c = (let n = (of_char c :: nat) in (9 \<le> n \<and> n \<le> 13) \<or> n = 32 \<or> n = 160)"

definition trim :: "string \<Rightarrow> string" where
  "trim s = rev (dropWhile is_space (rev (dropWhile is_space s)))"

fun startsWith :: "string \<Rightarrow> string \<Rightarrow> bool" where
  "startsWith s [] = True"
| "startsWith [] (y # ys) = False"
| "startsWith (x # xs) (y # ys) = (x = y \<and> startsWith xs ys)"

text \<open>\<open>s.includes(t)\<close>: \<open>t\<close> occurs in \<open>s\<close> as a contiguous substring.\<close>

fun includes_str :: "string \<Rightarrow> string \<Rightarrow> bool" where
  "includes_str [] t = (t = [])"
| "includes_str (x # xs) t = (startsWith (x # xs) t \<or> includes_str xs t)"

section \<open>Practice tests: \<open>models/Test.ts\<close>\<close>

datatype question_type = multiple_choice | true_false | fill_blank | coding | essay

text \<open>
  The status strings of both session schemas.  The test session schema allows
  \<open>in_progress\<close>, \<open>completed\<close>, \<open>abandoned\<close>, \<open>timeout\<close>; the interview schema allows
  \<open>in_progress\<close>, \<open>completed\<close>, \<open>abandoned\<close>, \<open>paused\<close>.
\<close>

datatype session_status = in_progress | completed | abandoned | timeout | paused

record TestQuestion =
  tq_question_id :: string
  tq_question_type :: question_type
  tq_correct_answer :: jsvalue
  tq_points :: rat

record Test =
  t_id :: nat
  t_questions :: "TestQuestion list"
  t_passing_score :: rat

record UserAnswer =
  ua_question_id :: string
  ua_selected_answer :: jsvalue
  ua_is_correct :: bool
  ua_time_spent :: rat
  ua_points_earned :: rat

record TestSession =
  ts_id :: nat
  ts_user_id :: nat
  ts_test_id :: nat
  ts_session_id :: string
  ts_answers :: "UserAnswer list"
  ts_score :: int
  ts_total_questions :: int
  ts_correct_answers :: int
  ts_time_spent :: rat
  ts_status :: session_status
  ts_completed_at :: "nat option"

text \<open>
  \<open>checkAnswer\<close>.  The \<open>default\<close> branch of the switch is unreachable for a value of the
  enumeration and has no equation.
\<close>

fun checkAnswer :: "TestQuestion \<Rightarrow> jsvalue \<Rightarrow> exn + bool" where
  "checkAnswer question answer =
     (case tq_question_type question of
        multiple_choice \<Rightarrow> Inr (answer = tq_correct_answer question)
      | true_false \<Rightarrow> Inr (answer = tq_correct_answer question)
      | fill_blank \<Rightarrow>
          (case toString answer of
             Inl e \<Rightarrow> Inl e
           | Inr a \<Rightarrow>
               (case toString (tq_correct_answer question) of
                  Inl e \<Rightarrow> Inl e
                | Inr c \<Rightarrow> Inr (trim (toLowerCase a) = trim (toLowerCase c))))
      | coding \<Rightarrow>
          (case toString answer of
             Inl e \<Rightarrow> Inl e
           | Inr a \<Rightarrow>
               (case toString (tq_correct_answer question) of
                  Inl e \<Rightarrow> Inl e
                | Inr c \<Rightarrow> Inr (includes_str (toLowerCase a) (toLowerCase c))))
      | essay \<Rightarrow> Inr True)"

text \<open>
  The validators of \<open>TestSessionSchema\<close> (\<open>required\<close>, \<open>min\<close>, \<open>max\<close>), which Mongoose
  runs on \<open>save\<close> before the schema's own \<open>pre('save')\<close> hook.
\<close>

definition validate_answer :: "UserAnswer \<Rightarrow> bool" where
  "validate_answer a =
     (ua_selected_answer a \<noteq> JNull \<and> 0 \<le> ua_time_spent a \<and> 0 \<le> ua_points_earned a)"

definition validate_session :: "TestSession \<Rightarrow> bool" where
  "validate_session s =
     (list_all validate_answer (ts_answers s) \<and>
      0 \<le> ts_score s \<and> ts_score s \<le> 100 \<and>
      1 \<le> ts_total_questions s \<and>
      0 \<le> ts_correct_answers s \<and>
      0 \<le> ts_time_spent s)"

text \<open>The \<open>pre('save')\<close> hook; \<open>modified\<close> is \<open>this.isModified('answers')\<close>.\<close>

definition TestSession_pre_save :: "bool \<Rightarrow> TestSession \<Rightarrow> TestSession" where
  "TestSession_pre_save modified s =
     (if modified \<and> length (ts_answers s) > 0 then
        let c = int (length (filter ua_is_correct (ts_answers s))) in
        s\<lparr>ts_correct_answers := c,
          ts_score := Math_round (fmul (fdiv (of_int c) (of_int (ts_total_questions s))) 100)\<rparr>
      else s)"

text \<open>
  \<open>save\<close>: validate, run the hook, and replace the stored document of the same \<open>_id\<close>.
  It yields the document as it is after the hook, and the collection.
\<close>

definition TestSession_save ::
  "bool \<Rightarrow> TestSession \<Rightarrow> TestSession list \<Rightarrow> exn + (TestSession \<times> TestSession list)" where
  "TestSession_save modified s sessions =
     (if \<not> validate_session s then Inl ValidationError
      else
        let s' = TestSession_pre_save modified s in
        Inr (s', map (\<lambda>d. if ts_id d = ts_id s' then s' else d) sessions))"

text \<open>
  \<open>addAnswer\<close>, on a session whose \<open>test_id\<close> is populated with \<open>test\<close>.  \<open>None\<close> is the
  return value \<open>false\<close>.  After the answer is checked, the method builds the object to
  push; the literal names its first property by the shorthand \<open>question_id\<close>, and no
  variable of that name is in scope (the parameter is \<open>questionId\<close>), so evaluating it
  throws a \<open>ReferenceError\<close>.  The push, the update of the counters and the \<open>save\<close>
  that follow are never reached.
\<close>

definition addAnswer ::
  "TestSession \<Rightarrow> Test \<Rightarrow> string \<Rightarrow> jsvalue \<Rightarrow> rat \<Rightarrow> TestSession list \<Rightarrow>
     exn + (TestSession \<times> TestSession list) option" where
  "addAnswer this test questionId answer timeSpent sessions =
     (case find (\<lambda>q. tq_question_id q = questionId) (t_questions test) of
        None \<Rightarrow> Inr None
      | Some question \<Rightarrow>
          (case checkAnswer question answer of
             Inl e \<Rightarrow> Inl e
           | Inr isCorrect \<Rightarrow> Inl ReferenceError))"

section \<open>Practice tests: \<open>controllers/test.controller.ts\<close>\<close>

datatype http_error =
  UNAUTHORIZED | BAD_REQUEST string | NOT_FOUND string | INTERNAL_SERVER_ERROR

datatype reason = R_completed | R_abandoned | R_timeout

record test_submit_body =
  tb_session_id :: string
  tb_question_id :: string
  tb_answer :: jsvalue
  tb_time_spent :: rat

record test_submit_response =
  tr_is_correct :: bool
  tr_points_earned :: rat
  tr_is_complete :: bool
  tr_current_score :: int
  tr_answered :: nat
  tr_total :: int

text \<open>\<open>findIndex\<close>, with \<open>-1\<close> for no match.\<close>

fun findIndex :: "('a \<Rightarrow> bool) \<Rightarrow> 'a list \<Rightarrow> int" where
  "findIndex P [] = - 1"
| "findIndex P (x # xs) =
     (if P x then 0 else (let i = findIndex P xs in if i < 0 then - 1 else i + 1))"

text \<open>
  \<open>TestController.submitAnswer\<close>.  \<open>user\<close> is \<open>req.user\<close>; a \<open>populate\<close> that finds no
  test leaves \<open>null\<close>, on which \<open>test.questions\<close> throws; every exception ends in the
  \<open>catch\<close> block (status 500).  The result is the response and the collection as the
  call leaves it.
\<close>

definition TestController_submitAnswer ::
  "nat option \<Rightarrow> test_submit_body \<Rightarrow> Test list \<Rightarrow> TestSession list \<Rightarrow>
     (http_error + test_submit_response) \<times> TestSession list" where
  "TestController_submitAnswer user body tests sessions =
     (case user of
        None \<Rightarrow> (Inl UNAUTHORIZED, sessions)
      | Some uid \<Rightarrow>
          if tb_session_id body = [] \<or> tb_question_id body = [] \<or>
             tb_time_spent body < 0 \<or> 600 < tb_time_spent body
          then (Inl (BAD_REQUEST ''Validation failed''), sessions)
          else
            (case find (\<lambda>s. ts_session_id s = tb_session_id body \<and> ts_user_id s = uid \<and>
                             ts_status s = in_progress) sessions of
               None \<Rightarrow> (Inl (NOT_FOUND ''Test session not found or not active''), sessions)
             | Some session \<Rightarrow>
                 (case find (\<lambda>t. t_id t = ts_test_id session) tests of
                    None \<Rightarrow> (Inl INTERNAL_SERVER_ERROR, sessions)
                  | Some test \<Rightarrow>
                      (case find (\<lambda>q. tq_question_id q = tb_question_id body)
                              (t_questions test) of
                         None \<Rightarrow> (Inl (NOT_FOUND ''Question not found''), sessions)
                       | Some question \<Rightarrow>
                           (case addAnswer session test (tb_question_id body)
                                   (tb_answer body) (tb_time_spent body) sessions of
                              Inl e \<Rightarrow> (Inl INTERNAL_SERVER_ERROR, sessions)
                            | Inr None \<Rightarrow>
                                (Inl (BAD_REQUEST ''Failed to submit answer''), sessions)
                            | Inr (Some (session', sessions')) \<Rightarrow>
                                let currentIndex =
                                      findIndex (\<lambda>q. tq_question_id q = tb_question_id body)
                                        (t_questions test);
                                    hasNext = (currentIndex < int (length (t_questions test)) - 1)
                                in (Inr \<lparr>tr_is_correct = ua_is_correct (last (ts_answers session')),
                                         tr_points_earned =
                                           ua_points_earned (last (ts_answers session')),
                                         tr_is_complete = (\<not> hasNext),
                                         tr_current_score = ts_score session',
                                         tr_answered = length (ts_answers session'),
                                         tr_total = ts_total_questions session'\<rparr>,
                                    sessions'))))))"

record test_complete_response =
  tc_status :: session_status
  tc_completed_at :: "nat option"
  tc_score :: int
  tc_is_passed :: bool

text \<open>
  \<open>TestController.completeTest\<close> at the time \<open>now\<close>; a missing \<open>reason\<close> defaults to
  \<open>completed\<close>.  After the \<open>save\<close>, for the reason \<open>completed\<close>, the handler calls
  \<open>this.updateUserStatistics\<close>; the router is given the method itself, so \<open>this\<close> is
  undefined there and the call throws a \<open>TypeError\<close>.  With no test to populate,
  \<open>test.passing_score\<close> throws, also after the \<open>save\<close>.
\<close>

definition completeTest ::
  "nat option \<Rightarrow> string \<Rightarrow> reason option \<Rightarrow> nat \<Rightarrow> Test list \<Rightarrow> TestSession list \<Rightarrow>
     (http_error + test_complete_response) \<times> TestSession list" where
  "completeTest user session_id reason_opt now tests sessions =
     (case user of
        None \<Rightarrow> (Inl UNAUTHORIZED, sessions)
      | Some uid \<Rightarrow>
          if session_id = [] then (Inl (BAD_REQUEST ''Validation failed''), sessions)
          else
            let reason = (case reason_opt of None \<Rightarrow> R_completed | Some r \<Rightarrow> r) in
            (case find (\<lambda>s. ts_session_id s = session_id \<and> ts_user_id s = uid) sessions of
               None \<Rightarrow> (Inl (NOT_FOUND ''Test session not found''), sessions)
             | Some session \<Rightarrow>
                 (case TestSession_save False
                         (session\<lparr>ts_status :=
                                    (if reason = R_completed then completed else abandoned),
                                  ts_completed_at := Some now\<rparr>) sessions of
                    Inl e \<Rightarrow> (Inl INTERNAL_SERVER_ERROR, sessions)
                  | Inr (session', sessions') \<Rightarrow>
                      if reason = R_completed then (Inl INTERNAL_SERVER_ERROR, sessions')
                      else
                        (case find (\<lambda>t. t_id t = ts_test_id session') tests of
                           None \<Rightarrow> (Inl INTERNAL_SERVER_ERROR, sessions')
                         | Some test \<Rightarrow>
                             (Inr \<lparr>tc_status = ts_status session',
                                   tc_completed_at = ts_completed_at session',
                                   tc_score = ts_score session',
                                   tc_is_passed =
                                     (t_passing_score test \<le> of_int (ts_score session'))\<rparr>,
                              sessions')))))"

section \<open>Scoring of free-text answers: \<open>services/ai.service.ts\<close>\<close>

text \<open>Arithmetic on numbers that may be \<open>NaN\<close>: \<open>+\<close>, \<open>*\<close>, \<open>Math.round\<close>, \<open>Math.min\<close>, \<open>Math.max\<close>.\<close>

fun js_add :: "jsnum \<Rightarrow> jsnum \<Rightarrow> jsnum" where
  "js_add (Fin x) (Fin y) = Fin (fadd x y)"
| "js_add _ _ = NaN"

fun js_mul :: "jsnum \<Rightarrow> jsnum \<Rightarrow> jsnum" where
  "js_mul (Fin x) (Fin y) = Fin (fmul x y)"
| "js_mul _ _ = NaN"

fun js_round :: "jsnum \<Rightarrow> jsnum" where
  "js_round (Fin x) = Fin (of_int (Math_round x))"
| "js_round NaN = NaN"

fun js_min :: "jsnum \<Rightarrow> jsnum \<Rightarrow> jsnum" where
  "js_min (Fin x) (Fin y) = Fin (min x y)"
| "js_min _ _ = NaN"

fun js_max :: "jsnum \<Rightarrow> jsnum \<Rightarrow> jsnum" where
  "js_max (Fin x) (Fin y) = Fin (max x y)"
| "js_max _ _ = NaN"

text \<open>
  The quotient \<open>a / b\<close> of two counts with \<open>a \<le> b\<close>, as at both of its uses below (a
  number of matches over the number of candidates): for \<open>b = 0\<close> it is \<open>0 / 0\<close>, which
  is \<open>NaN\<close>.
\<close>

definition js_ratio :: "nat \<Rightarrow> nat \<Rightarrow> jsnum" where
  "js_ratio a b = (if b = 0 then NaN else Fin (fdiv (of_nat a) (of_nat b)))"

text \<open>\<open>s.split(' ')\<close>: the pieces between single spaces; never the empty list.\<close>

fun split_space :: "string \<Rightarrow> string list" where
  "split_space [] = [[]]"
| "split_space (c # cs) =
     (if c = CHR '' '' then [] # split_space cs
      else (case split_space cs of [] \<Rightarrow> [[c]] | w # ws \<Rightarrow> (c # w) # ws))"

text \<open>The class \<open>\w\<close>: letters, digits and the underscore.\<close>

definition is_word_char :: "char \<Rightarrow> bool" where
  "is_word_char c =
     (let n = (of_char c :: nat) in
      (48 \<le> n \<and> n \<le> 57) \<or> (65 \<le> n \<and> n \<le> 90) \<or> (97 \<le> n \<and> n \<le> 122) \<or> n = 95)"

record AIAnalysisRequest =
  rq_question :: string
  rq_user_answer :: string
  rq_expected_keywords :: "string list"

text \<open>
  The numeric part of \<open>AIAnalysisResponse\<close>; the lists of feedback phrases are left out.
\<close>

record AIAnalysisResponse =
  rs_score :: jsnum
  rs_keyword_matches :: nat
  rs_clarity_score :: int
  rs_completeness_score :: int
  rs_relevance_score :: jsnum
  rs_keyword_analysis_score :: jsnum
  rs_confidence_level :: jsnum

definition getKeywordVariations :: "string \<Rightarrow> string list" where
  "getKeywordVariations keyword =
     [keyword] @
     (if includes_str keyword '' '' then [filter (\<lambda>c. \<not> is_space c) keyword] else []) @
     (if keyword \<noteq> [] \<and> last keyword = CHR ''s'' then [butlast keyword]
      else [keyword @ ''s''])"

definition containsKeyword :: "string \<Rightarrow> string \<Rightarrow> bool" where
  "containsKeyword answer keyword =
     list_ex (\<lambda>variation. includes_str answer variation) (getKeywordVariations keyword)"

definition calculateKeywordMatches :: "string \<Rightarrow> string list \<Rightarrow> nat" where
  "calculateKeywordMatches answer keywords =
     length (filter (\<lambda>keyword. containsKeyword (toLowerCase answer) (toLowerCase keyword))
       keywords)"

definition technicalTerms :: "string list" where
  "technicalTerms =
     [''algorithm'', ''data structure'', ''optimization'', ''complexity'', ''implementation'']"

definition calculateClarityScore :: "string \<Rightarrow> rat" where
  "calculateClarityScore answer =
     (let score = 50;
          score = (if length answer > 100 then score + 20
                   else if length answer > 50 then score + 10 else score);
          score = (if includes_str answer ''.'' then score + 10 else score);
          score = (if includes_str answer '','' then score + 5 else score);
          score = (if includes_str answer ''because'' \<or> includes_str answer ''therefore''
                   then score + 10 else score);
          technicalCount =
            length (filter (\<lambda>term. includes_str (toLowerCase answer) term) technicalTerms);
          score = score + of_nat technicalCount * 5
      in min 100 score)"

definition calculateCompletenessScore :: "string \<Rightarrow> string \<Rightarrow> rat" where
  "calculateCompletenessScore answer question =
     (let score = 50;
          questionWords = length (split_space question);
          answerWords = length (split_space answer);
          ratio = fdiv (of_nat answerWords) (of_nat questionWords);
          score = (if ratio > 2 then score + 20 else if ratio > 1 then score + 10 else score);
          score = (if includes_str question ''explain'' \<and> length answer > 100
                   then score + 15 else score);
          score = (if includes_str question ''describe'' \<and> includes_str answer ''step''
                   then score + 15 else score);
          score = (if includes_str question ''compare'' \<and> includes_str answer ''vs''
                   then score + 15 else score)
      in min 100 score)"

definition questionTerms :: "string \<Rightarrow> string list" where
  "questionTerms question =
     filter (\<lambda>term. length term > 3)
       (split_space (filter (\<lambda>c. is_word_char c \<or> is_space c) (toLowerCase question)))"

definition calculateRelevanceScore :: "string \<Rightarrow> string \<Rightarrow> jsnum" where
  "calculateRelevanceScore answer question =
     (let addressedTerms =
            length (filter (\<lambda>term. includes_str (toLowerCase answer) term)
              (questionTerms question));
          score = js_add (Fin 50)
                    (js_mul (js_ratio addressedTerms (length (questionTerms question))) (Fin 30))
      in js_min (Fin 100) score)"

definition calculateConfidenceLevel :: "jsnum \<Rightarrow> nat \<Rightarrow> jsnum" where
  "calculateConfidenceLevel score answerLength =
     (let confidence =
            (if answerLength > 200 then js_add score (Fin 10)
             else if answerLength < 50 then js_add score (Fin (- 20)) else score)
      in js_min (Fin 100) (js_max (Fin 0) confidence))"

text \<open>
  \<open>simulateAIAnalysis\<close>, without its simulated delay.  The decimal constants are the
  doubles nearest to them.  With the request's fields typed as here nothing in it
  throws, so \<open>analyzeAnswer\<close> never reaches its fallback and returns this result (with
  the processing time added).
\<close>

definition simulateAIAnalysis :: "AIAnalysisRequest \<Rightarrow> AIAnalysisResponse" where
  "simulateAIAnalysis request =
     (let keywordMatches =
            calculateKeywordMatches (rq_user_answer request) (rq_expected_keywords request);
          keywordScore =
            js_mul (js_ratio keywordMatches (length (rq_expected_keywords request))) (Fin 100);
          clarityScore = calculateClarityScore (rq_user_answer request);
          completenessScore =
            calculateCompletenessScore (rq_user_answer request) (rq_question request);
          relevanceScore =
            calculateRelevanceScore (rq_user_answer request) (rq_question request);
          overallScore =
            js_round
              (js_add
                (js_add
                  (js_add (js_mul keywordScore (Fin (binary64 (4 / 10))))
                          (js_mul (Fin clarityScore) (Fin (binary64 (3 / 10)))))
                  (js_mul (Fin completenessScore) (Fin (binary64 (2 / 10)))))
                (js_mul relevanceScore (Fin (binary64 (1 / 10)))))
      in \<lparr>rs_score = js_min (Fin 100) (js_max (Fin 0) overallScore),
          rs_keyword_matches = keywordMatches,
          rs_clarity_score = Math_round clarityScore,
          rs_completeness_score = Math_round completenessScore,
          rs_relevance_score = js_round relevanceScore,
          rs_keyword_analysis_score = js_round keywordScore,
          rs_confidence_level =
            calculateConfidenceLevel overallScore (length (rq_user_answer request))\<rparr>)"

definition analyzeAnswer :: "AIAnalysisRequest \<Rightarrow> AIAnalysisResponse" where
  "analyzeAnswer request = simulateAIAnalysis request"

section \<open>Interviews: the Interview model\<close>

datatype difficulty = beginner | intermediate | advanced

datatype interview_question_type = behavioral | technical | situational | system_design

datatype rating = excellent | good | average | needs_improvement

text \<open>
  Of a question's stored feedback only \<open>keyword_matches\<close> is kept; \<open>difficulty_weight\<close>
  and \<open>order\<close> are not read by the operations below.
\<close>

record InterviewQuestion =
  iq_question_id :: string
  iq_question_text :: string
  iq_question_type :: interview_question_type
  iq_expected_keywords :: "string list"
  iq_time_allocated :: rat
  iq_time_taken :: rat
  iq_user_answer :: string
  iq_ai_score :: rat
  iq_keyword_matches :: nat

text \<open>Of \<open>InterviewFeedback\<close>, the total score and the rating.\<close>

record InterviewFeedback =
  fb_total_score :: int
  fb_overall_rating :: rating

record Interview =
  iv_id :: nat
  iv_user_id :: nat
  iv_session_id :: string
  iv_difficulty :: difficulty
  iv_questions :: "InterviewQuestion list"
  iv_overall_feedback :: "InterviewFeedback option"
  iv_completion_rate :: int
  iv_answered_questions :: int
  iv_average_time_per_question :: rat
  iv_metadata_completed_at :: "nat option"
  iv_status :: session_status
  iv_completed_at :: "nat option"

definition totalQuestions :: "Interview \<Rightarrow> nat" where
  "totalQuestions this = length (iv_questions this)"

definition answeredQuestions :: "Interview \<Rightarrow> nat" where
  "answeredQuestions this =
     length (filter (\<lambda>q. iq_user_answer q \<noteq> [] \<and> length (trim (iq_user_answer q)) > 0)
       (iv_questions this))"

definition completionRate :: "Interview \<Rightarrow> int" where
  "completionRate this =
     (if length (iv_questions this) = 0 then 0
      else Math_round
             (fmul (fdiv (of_nat (answeredQuestions this)) (of_nat (totalQuestions this))) 100))"

text \<open>\<open>reduce((sum, q) => sum + ..., 0)\<close>: the sum from the left, each step a double.\<close>

definition totalTimeSpent :: "Interview \<Rightarrow> rat" where
  "totalTimeSpent this = foldl fadd 0 (map iq_time_taken (iv_questions this))"

definition calculateOverallScore :: "Interview \<Rightarrow> int" where
  "calculateOverallScore this =
     (if length (iv_questions this) = 0 then 0
      else
        let totalScore = foldl fadd 0 (map iq_ai_score (iv_questions this));
            averageScore = fdiv totalScore (of_nat (length (iv_questions this)));
            difficultyWeight =
              (if iv_difficulty this = beginner then 1
               else if iv_difficulty this = intermediate then binary64 (12 / 10) else 15 / 10);
            completionWeight = fdiv (of_int (completionRate this)) 100
        in Math_round (fmul (fmul averageScore difficultyWeight) completionWeight))"

text \<open>
  \<open>generateFeedback\<close> computes the total score, the category scores and the phrase
  lists, none of which throws, and then builds the summary; the object literal names
  the category scores by the shorthand \<open>category_scores\<close>, and no variable of that name
  is in scope (the local is \<open>categoryScores\<close>), so evaluating it throws a
  \<open>ReferenceError\<close>.  No summary is stored or returned.
\<close>

definition generateFeedback :: "Interview \<Rightarrow> exn + InterviewFeedback \<times> Interview" where
  "generateFeedback this = Inl ReferenceError"

text \<open>
  The validators of \<open>InterviewSchema\<close> and its sub-schemas on the fields modelled; the
  model checks each of them on every \<open>save\<close>.
\<close>

definition validate_question :: "InterviewQuestion \<Rightarrow> bool" where
  "validate_question q =
     (length (iq_question_text q) \<le> 1000 \<and>
      30 \<le> iq_time_allocated q \<and> iq_time_allocated q \<le> 1800 \<and>
      0 \<le> iq_time_taken q \<and>
      length (iq_user_answer q) \<le> 5000 \<and>
      0 \<le> iq_ai_score q \<and> iq_ai_score q \<le> 100 \<and>
      iq_keyword_matches q \<le> 100)"

definition validate_interview :: "Interview \<Rightarrow> bool" where
  "validate_interview i =
     (list_all validate_question (iv_questions i) \<and>
      (case iv_overall_feedback i of
         None \<Rightarrow> True
       | Some f \<Rightarrow> 0 \<le> fb_total_score f \<and> fb_total_score f \<le> 100) \<and>
      0 \<le> iv_completion_rate i \<and> iv_completion_rate i \<le> 100 \<and>
      0 \<le> iv_answered_questions i \<and>
      0 \<le> iv_average_time_per_question i)"

text \<open>
  The \<open>pre('save')\<close> hook at the time \<open>now\<close>; \<open>modified\<close> is \<open>this.isModified('status')\<close>.
\<close>

definition Interview_pre_save :: "bool \<Rightarrow> nat \<Rightarrow> Interview \<Rightarrow> Interview" where
  "Interview_pre_save modified now this =
     (let this1 =
            (if length (iv_questions this) > 0 then
               this\<lparr>iv_completion_rate := completionRate this,
                    iv_answered_questions := int (answeredQuestions this),
                    iv_average_time_per_question :=
                      fdiv (totalTimeSpent this) (of_nat (length (iv_questions this)))\<rparr>
             else this)
      in if modified \<and> iv_status this1 = completed \<and> iv_completed_at this1 = None
         then this1\<lparr>iv_completed_at := Some now, iv_metadata_completed_at := Some now\<rparr>
         else this1)"

definition Interview_save ::
  "bool \<Rightarrow> nat \<Rightarrow> Interview \<Rightarrow> Interview list \<Rightarrow> exn + (Interview \<times> Interview list)" where
  "Interview_save modified now i interviews =
     (if \<not> validate_interview i then Inl ValidationError
      else
        let i' = Interview_pre_save modified now i in
        Inr (i', map (\<lambda>d. if iv_id d = iv_id i' then i' else d) interviews))"

section \<open>Interviews: the InterviewController\<close>

record interview_submit_body =
  ib_session_id :: string
  ib_question_id :: string
  ib_answer :: string
  ib_time_taken :: rat

record interview_submit_response =
  ir_score :: rat
  ir_next_question :: "string option"
  ir_is_complete :: bool
  ir_current_score :: int
  ir_answered :: nat
  ir_total :: nat

text \<open>A change made through the element that \<open>find\<close> returned: the first match.\<close>

fun update_first :: "('a \<Rightarrow> bool) \<Rightarrow> ('a \<Rightarrow> 'a) \<Rightarrow> 'a list \<Rightarrow> 'a list" where
  "update_first P f [] = []"
| "update_first P f (x # xs) = (if P x then f x # xs else x # update_first P f xs)"

text \<open>
  \<open>InterviewController.submitAnswer\<close> at the time \<open>now\<close>.  A score that is \<open>NaN\<close> cannot be
  stored in the numeric path \<open>ai_score\<close>: the \<open>save\<close> rejects it and the request ends
  in the \<open>catch\<close> block.
\<close>

definition InterviewController_submitAnswer ::
  "nat option \<Rightarrow> interview_submit_body \<Rightarrow> nat \<Rightarrow> Interview list \<Rightarrow>
     (http_error + interview_submit_response) \<times> Interview list" where
  "InterviewController_submitAnswer user body now interviews =
     (case user of
        None \<Rightarrow> (Inl UNAUTHORIZED, interviews)
      | Some uid \<Rightarrow>
          if ib_session_id body = [] \<or> ib_question_id body = [] \<or>
             length (ib_answer body) < 1 \<or> 5000 < length (ib_answer body) \<or>
             ib_time_taken body < 0 \<or> 1800 < ib_time_taken body
          then (Inl (BAD_REQUEST ''Validation failed''), interviews)
          else
            (case find (\<lambda>i. iv_session_id i = ib_session_id body \<and> iv_user_id i = uid \<and>
                             iv_status i = in_progress) interviews of
               None \<Rightarrow>
                 (Inl (NOT_FOUND ''Interview session not found or not active''), interviews)
             | Some interview \<Rightarrow>
                 (case find (\<lambda>q. iq_question_id q = ib_question_id body)
                         (iv_questions interview) of
                    None \<Rightarrow> (Inl (NOT_FOUND ''Question not found''), interviews)
                  | Some question \<Rightarrow>
                      let aiAnalysis = analyzeAnswer
                            \<lparr>rq_question = iq_question_text question,
                             rq_user_answer = ib_answer body,
                             rq_expected_keywords = iq_expected_keywords question\<rparr>
                      in (case rs_score aiAnalysis of
                            NaN \<Rightarrow> (Inl INTERNAL_SERVER_ERROR, interviews)
                          | Fin score \<Rightarrow>
                              let questions' =
                                    update_first (\<lambda>q. iq_question_id q = ib_question_id body)
                                      (\<lambda>q. q\<lparr>iq_user_answer := ib_answer body,
                                               iq_time_taken := ib_time_taken body,
                                               iq_ai_score := score,
                                               iq_keyword_matches :=
                                                 rs_keyword_matches aiAnalysis\<rparr>)
                                      (iv_questions interview);
                                  interview1 = interview\<lparr>
                                    iv_questions := questions',
                                    iv_answered_questions := iv_answered_questions interview + 1,
                                    iv_average_time_per_question :=
                                      fdiv (foldl fadd 0 (map iq_time_taken questions'))
                                        (of_nat (length questions'))\<rparr>
                              in (case Interview_save False now interview1 interviews of
                                    Inl e \<Rightarrow> (Inl INTERNAL_SERVER_ERROR, interviews)
                                  | Inr (interview', interviews') \<Rightarrow>
                                      let currentIndex =
                                            findIndex
                                              (\<lambda>q. iq_question_id q = ib_question_id body)
                                              (iv_questions interview');
                                          nextQuestion =
                                            (if currentIndex <
                                                int (length (iv_questions interview')) - 1
                                             then Some (iq_question_id
                                                    (iv_questions interview' !
                                                       nat (currentIndex + 1)))
                                             else None)
                                      in (Inr \<lparr>ir_score = score,
                                               ir_next_question = nextQuestion,
                                               ir_is_complete = (nextQuestion = None),
                                               ir_current_score = calculateOverallScore interview',
                                               ir_answered = answeredQuestions interview',
                                               ir_total = totalQuestions interview'\<rparr>,
                                          interviews'))))))"

record interview_complete_response =
  ic_status :: session_status
  ic_completed_at :: "nat option"
  ic_total_questions :: nat
  ic_answered_questions :: nat
  ic_completion_rate :: int
  ic_overall_feedback :: InterviewFeedback

text \<open>
  \<open>InterviewController.completeInterview\<close> at the time \<open>now\<close>.  The status and the
  completion times are set on the document in memory; \<open>generateFeedback\<close> comes before
  the \<open>save\<close>, and what it throws ends in the \<open>catch\<close> block.  The branch after it is
  as the source writes it: the \<open>save\<close>, then for the reason \<open>completed\<close> the call of
  \<open>this.updateUserStatistics\<close>, which throws as in \<open>completeTest\<close>.
\<close>

definition completeInterview ::
  "nat option \<Rightarrow> string \<Rightarrow> reason option \<Rightarrow> nat \<Rightarrow> Interview list \<Rightarrow>
     (http_error + interview_complete_response) \<times> Interview list" where
  "completeInterview user session_id reason_opt now interviews =
     (case user of
        None \<Rightarrow> (Inl UNAUTHORIZED, interviews)
      | Some uid \<Rightarrow>
          if session_id = [] then (Inl (BAD_REQUEST ''Validation failed''), interviews)
          else
            let reason = (case reason_opt of None \<Rightarrow> R_completed | Some r \<Rightarrow> r) in
            (case find (\<lambda>i. iv_session_id i = session_id \<and> iv_user_id i = uid) interviews of
               None \<Rightarrow> (Inl (NOT_FOUND ''Interview session not found''), interviews)
             | Some interview \<Rightarrow>
                 let interview1 = interview\<lparr>
                       iv_status := (if reason = R_completed then completed else abandoned),
                       iv_completed_at := Some now,
                       iv_metadata_completed_at := Some now\<rparr>
                 in (case generateFeedback interview1 of
                       Inl e \<Rightarrow> (Inl INTERNAL_SERVER_ERROR, interviews)
                     | Inr (overallFeedback, interview2) \<Rightarrow>
                         (case Interview_save (iv_status interview1 \<noteq> iv_status interview) now
                                 interview2 interviews of
                            Inl e \<Rightarrow> (Inl INTERNAL_SERVER_ERROR, interviews)
                          | Inr (interview', interviews') \<Rightarrow>
                              if reason = R_completed
                              then (Inl INTERNAL_SERVER_ERROR, interviews')
                              else
                                (Inr \<lparr>ic_status = iv_status interview',
                                      ic_completed_at = iv_completed_at interview',
                                      ic_total_questions = totalQuestions interview',
                                      ic_answered_questions = answeredQuestions interview',
                                      ic_completion_rate = completionRate interview',
                                      ic_overall_feedback = overallFeedback\<rparr>,
                                 interviews')))))"

section \<open>The formulas of the specification\<close>

text \<open>
  The arithmetic mean of the per-question scores, the difficulty weights, and the total
  score as the specification words it: the mean, times the weight, times the fraction
  of answered questions, rounded.
\<close>

definition mean_score :: "InterviewQuestion list \<Rightarrow> rat" where
  "mean_score qs = sum_list (map iq_ai_score qs) / of_nat (length qs)"

fun difficulty_weight :: "difficulty \<Rightarrow> rat" where
  "difficulty_weight beginner = 1"
| "difficulty_weight intermediate = 12 / 10"
| "difficulty_weight advanced = 15 / 10"

definition claimed_total_score :: "Interview \<Rightarrow> int" where
  "claimed_total_score i =
     Math_round (mean_score (iv_questions i) * difficulty_weight (iv_difficulty i) *
       (of_nat (answeredQuestions i) / of_nat (totalQuestions i)))"

text \<open>
  The total score as the code computes it, in the words of the amended statement: 0
  without questions; otherwise the mean of the scores, times the weight, times one
  hundredth of the completion rate, rounded, where the completion rate is the rounded
  percentage of the questions whose answer is not blank, and every step is a double.
\<close>

definition completion_rate :: "InterviewQuestion list \<Rightarrow> int" where
  "completion_rate qs =
     Math_round
       (fmul (fdiv (of_nat (length (filter (\<lambda>q. trim (iq_user_answer q) \<noteq> []) qs)))
                   (of_nat (length qs))) 100)"

definition amended_total_score :: "difficulty \<Rightarrow> InterviewQuestion list \<Rightarrow> int" where
  "amended_total_score d qs =
     (if qs = [] then 0
      else Math_round
             (fmul (fmul (fdiv (foldl fadd 0 (map iq_ai_score qs)) (of_nat (length qs)))
                         (binary64 (difficulty_weight d)))
                   (fdiv (of_int (completion_rate qs)) 100)))"


section \<open>Practice tests: no answer is recorded\<close>

lemma find_SomeD: "find P xs = Some x \<Longrightarrow> x \<in> set xs \<and> P x"
  by (induction xs) (auto split: if_splits)


lemma saved_member:
  "x \<in> set xs \<Longrightarrow> f x = f y \<Longrightarrow> y \<in> set (map (\<lambda>d. if f d = f y then y else d) xs)"
  by (induction xs) auto

text \<open>\<open>addAnswer\<close> never saves: it returns \<open>false\<close> or throws.\<close>

lemma addAnswer_never_saves:
  "addAnswer this test questionId answer timeSpent sessions \<noteq> Inr (Some p)"
proof (cases "find (\<lambda>q. tq_question_id q = questionId) (t_questions test)")
  case None
  then show ?thesis
    by (simp add: addAnswer_def)
next
  case (Some question)
  then show ?thesis
    by (cases "checkAnswer question answer")
      (simp_all add: addAnswer_def del: checkAnswer.simps)
qed

text \<open>
  Hence \<open>TestController.submitAnswer\<close> never answers with success, and it leaves the
  stored sessions as they were.
\<close>

lemma TestController_submitAnswer_fails:
  "\<exists>e. TestController_submitAnswer user body tests sessions = (Inl e, sessions)"
proof (cases user)
  case None
  then show ?thesis
    by (simp add: TestController_submitAnswer_def)
next
  case (Some uid)
  show ?thesis
  proof (cases "tb_session_id body = [] \<or> tb_question_id body = [] \<or>
                tb_time_spent body < 0 \<or> 600 < tb_time_spent body")
    case True
    with Some show ?thesis
      by (simp add: TestController_submitAnswer_def)
  next
    case valid: False
    show ?thesis
    proof (cases "find (\<lambda>s. ts_session_id s = tb_session_id body \<and> ts_user_id s = uid \<and>
                             ts_status s = in_progress) sessions")
      case None
      with Some valid show ?thesis
        by (simp add: TestController_submitAnswer_def)
    next
      case found: (Some session)
      show ?thesis
      proof (cases "find (\<lambda>t. t_id t = ts_test_id session) tests")
        case None
        with Some valid found show ?thesis
          by (simp add: TestController_submitAnswer_def)
      next
        case test: (Some test)
        show ?thesis
        proof (cases "find (\<lambda>q. tq_question_id q = tb_question_id body) (t_questions test)")
          case None
          with Some valid found test show ?thesis
            by (simp add: TestController_submitAnswer_def)
        next
          case question: (Some question)
          show ?thesis
          proof (cases "addAnswer session test (tb_question_id body) (tb_answer body)
                          (tb_time_spent body) sessions")
            case (Inl e)
            with Some valid found test question show ?thesis
              by (simp add: TestController_submitAnswer_def)
          next
            case (Inr res)
            with addAnswer_never_saves [of session test "tb_question_id body" "tb_answer body"
                "tb_time_spent body" sessions]
            have "res = None"
              by (cases res) auto
            with Some valid found test question Inr show ?thesis
              by (simp add: TestController_submitAnswer_def)
          qed
        qed
      qed
    qed
  qed
qed





text \<open>For a question of kind essay the answer checker returns \<open>true\<close> whatever is submitted.\<close>

lemma checkAnswer_essay:
  "tq_question_type question = essay \<Longrightarrow> checkAnswer question answer = Inr True"
  by simp

text \<open>
  C9 (failing input).  An essay question is answered in a fresh session: the answer
  checker returns \<open>true\<close>, but the call ends in the \<open>catch\<close> block and the stored session
  has no attempt, correct or not.
\<close>

theorem essay_answer_not_recorded:
  "checkAnswer \<lparr>tq_question_id = ''q1'', tq_question_type = essay,
                tq_correct_answer = JStr ''model answer'', tq_points = 5\<rparr>
      (JStr ''An essay.'') = Inr True \<and>
   TestController_submitAnswer (Some 7)
      \<lparr>tb_session_id = ''s1'', tb_question_id = ''q1'', tb_answer = JStr ''An essay.'',
        tb_time_spent = 30\<rparr>
      [\<lparr>t_id = 1, t_questions =
          [\<lparr>tq_question_id = ''q1'', tq_question_type = essay,
            tq_correct_answer = JStr ''model answer'', tq_points = 5\<rparr>], t_passing_score = 70\<rparr>]
      [\<lparr>ts_id = 1, ts_user_id = 7, ts_test_id = 1, ts_session_id = ''s1'',
        ts_answers = [], ts_score = 0, ts_total_questions = 1, ts_correct_answers = 0,
        ts_time_spent = 0, ts_status = in_progress, ts_completed_at = None\<rparr>]
   = (Inl INTERNAL_SERVER_ERROR,
      [\<lparr>ts_id = 1, ts_user_id = 7, ts_test_id = 1, ts_session_id = ''s1'',
        ts_answers = [], ts_score = 0, ts_total_questions = 1, ts_correct_answers = 0,
        ts_time_spent = 0, ts_status = in_progress, ts_completed_at = None\<rparr>])"
  by code_simp

text \<open>
  C8 (failing input).  An in-progress test session completed with the reason
  \<open>timeout\<close> at time 1000 is stored with the status \<open>abandoned\<close>.
\<close>

theorem completeTest_timeout_stored_as_abandoned:
  "completeTest (Some 7) ''s1'' (Some R_timeout) 1000
      [\<lparr>t_id = 1, t_questions =
          [\<lparr>tq_question_id = ''q1'', tq_question_type = multiple_choice,
            tq_correct_answer = JNum 1, tq_points = 2\<rparr>], t_passing_score = 70\<rparr>]
      [\<lparr>ts_id = 1, ts_user_id = 7, ts_test_id = 1, ts_session_id = ''s1'',
        ts_answers = [], ts_score = 0, ts_total_questions = 1, ts_correct_answers = 0,
        ts_time_spent = 0, ts_status = in_progress, ts_completed_at = None\<rparr>]
   = (Inr \<lparr>tc_status = abandoned, tc_completed_at = Some 1000, tc_score = 0,
           tc_is_passed = False\<rparr>,
      [\<lparr>ts_id = 1, ts_user_id = 7, ts_test_id = 1, ts_session_id = ''s1'',
        ts_answers = [], ts_score = 0, ts_total_questions = 1, ts_correct_answers = 0,
        ts_time_spent = 0, ts_status = abandoned, ts_completed_at = Some 1000\<rparr>])"
  by code_simp

section \<open>Scoring of free-text answers: the range of the score\<close>

lemma clamp_round_in_range:
  "\<exists>r. js_min (Fin 100) (js_max (Fin 0) (js_round (Fin x))) = Fin r \<and> 0 \<le> r \<and> r \<le> 100"
  by simp

text \<open>
  With at least one expected keyword and at least one salient term in the question
  text, the score is a number between 0 and 100.
\<close>

lemma score_in_range:
  assumes "rq_expected_keywords request \<noteq> []" and "questionTerms (rq_question request) \<noteq> []"
  shows "\<exists>r. rs_score (simulateAIAnalysis request) = Fin r \<and> 0 \<le> r \<and> r \<le> 100"
proof -
  obtain k where k: "js_ratio (calculateKeywordMatches (rq_user_answer request)
      (rq_expected_keywords request)) (length (rq_expected_keywords request)) = Fin k"
    using assms(1) by (simp add: js_ratio_def)
  obtain v where v: "calculateRelevanceScore (rq_user_answer request) (rq_question request) = Fin v"
    using assms(2) by (simp add: calculateRelevanceScore_def js_ratio_def Let_def)
  show ?thesis
    using clamp_round_in_range by (simp add: simulateAIAnalysis_def Let_def k v)
qed

text \<open>
  C3 (failing input).  The question \<open>Why use Git?\<close> has no term longer than three
  characters; with one expected keyword and an ordinary answer the returned score is
  \<open>NaN\<close>.
\<close>

theorem score_NaN_without_salient_terms:
  "questionTerms ''Why use Git?'' = [] \<and>
   rs_score (analyzeAnswer
      \<lparr>rq_question = ''Why use Git?'',
       rq_user_answer = ''Because it records every change.'',
       rq_expected_keywords = [''version control'']\<rparr>) = NaN"
  by code_simp

text \<open>
  C10.  With an empty list of expected keywords the keyword score is \<open>0 / 0\<close>, and the
  score that \<open>simulateAIAnalysis\<close> returns after rounding and clamping is \<open>NaN\<close>, for
  every question and every answer: it is no number between 0 and 100.
\<close>

theorem empty_keywords_score_NaN:
  assumes "rq_expected_keywords request = []"
  shows "rs_keyword_analysis_score (simulateAIAnalysis request) = NaN \<and>
         rs_score (simulateAIAnalysis request) = NaN \<and>
         (\<nexists>r. rs_score (simulateAIAnalysis request) = Fin r \<and> 0 \<le> r \<and> r \<le> 100)"
  using assms by (simp add: simulateAIAnalysis_def js_ratio_def Let_def)

theorem empty_keywords_score_NaN_witness:
  "rs_score (simulateAIAnalysis
      \<lparr>rq_question = ''Explain recursion'',
       rq_user_answer = ''A function that calls itself.'',
       rq_expected_keywords = []\<rparr>) = NaN"
  using empty_keywords_score_NaN
    [of "\<lparr>rq_question = ''Explain recursion'',
          rq_user_answer = ''A function that calls itself.'',
          rq_expected_keywords = []\<rparr>"]
  by simp

section \<open>Terminal sessions\<close>





section \<open>Interviews: what SubmitAnswer does\<close>

lemma update_first_length: "length (update_first P f xs) = length xs"
  by (induction xs) auto

lemma update_first_find:
  assumes "\<And>x. P x \<Longrightarrow> P (f x)"
  shows "find P (update_first P f xs) = map_option f (find P xs)"
  using assms by (induction xs) auto

lemma update_first_ids:
  assumes "\<And>x. g (f x) = g x"
  shows "map g (update_first P f xs) = map g xs"
  using assms by (induction xs) auto

lemma find_Some_nonempty: "find P xs = Some x \<Longrightarrow> xs \<noteq> []"
  by (cases xs) auto

lemma Interview_pre_save_keeps:
  "iv_questions (Interview_pre_save m now i) = iv_questions i"
  "iv_difficulty (Interview_pre_save m now i) = iv_difficulty i"
  "iv_id (Interview_pre_save m now i) = iv_id i"
  "iv_session_id (Interview_pre_save m now i) = iv_session_id i"
  "iv_status (Interview_pre_save m now i) = iv_status i"
  by (simp_all add: Interview_pre_save_def Let_def)

lemma answeredQuestions_cong:
  "iv_questions i = iv_questions j \<Longrightarrow> answeredQuestions i = answeredQuestions j"
  by (simp add: answeredQuestions_def)

lemma Interview_pre_save_answered:
  "iv_questions i \<noteq> [] \<Longrightarrow>
   iv_answered_questions (Interview_pre_save m now i) =
     int (answeredQuestions (Interview_pre_save m now i))"
  by (simp add: Interview_pre_save_def Let_def answeredQuestions_def)

text \<open>
  \<open>InterviewController.submitAnswer\<close> either fails and leaves the collection as it was,
  or saves the interview it found, with the answer, the time and the score in the slot
  of the question, and reports from the saved document.
\<close>

lemma InterviewController_submitAnswer_cases:
  "(\<exists>e. InterviewController_submitAnswer user body now interviews = (Inl e, interviews)) \<or>
   (\<exists>r uid interview interview' km.
      InterviewController_submitAnswer user body now interviews =
        (Inr r, map (\<lambda>d. if iv_id d = iv_id interview then interview' else d) interviews) \<and>
      find (\<lambda>i. iv_session_id i = ib_session_id body \<and> iv_user_id i = uid \<and>
                 iv_status i = in_progress) interviews = Some interview \<and>
      iv_id interview' = iv_id interview \<and>
      iv_session_id interview' = iv_session_id interview \<and>
      iv_difficulty interview' = iv_difficulty interview \<and>
      iv_questions interview' =
        update_first (\<lambda>q. iq_question_id q = ib_question_id body)
          (\<lambda>q. q\<lparr>iq_user_answer := ib_answer body, iq_time_taken := ib_time_taken body,
                   iq_ai_score := ir_score r, iq_keyword_matches := km\<rparr>)
          (iv_questions interview) \<and>
      iv_questions interview' \<noteq> [] \<and>
      iv_answered_questions interview' = int (answeredQuestions interview') \<and>
      ir_current_score r = calculateOverallScore interview' \<and>
      ir_answered r = answeredQuestions interview' \<and>
      ir_total r = totalQuestions interview')"
proof (cases user)
  case None
  then show ?thesis
    by (simp add: InterviewController_submitAnswer_def)
next
  case (Some uid)
  show ?thesis
  proof (cases "ib_session_id body = [] \<or> ib_question_id body = [] \<or>
                length (ib_answer body) < 1 \<or> 5000 < length (ib_answer body) \<or>
                ib_time_taken body < 0 \<or> 1800 < ib_time_taken body")
    case True
    with Some show ?thesis
      by (simp add: InterviewController_submitAnswer_def)
  next
    case valid: False
    show ?thesis
    proof (cases "find (\<lambda>i. iv_session_id i = ib_session_id body \<and> iv_user_id i = uid \<and>
                             iv_status i = in_progress) interviews")
      case None
      with Some valid show ?thesis
        by (simp add: InterviewController_submitAnswer_def)
    next
      case found: (Some interview)
      show ?thesis
      proof (cases "find (\<lambda>q. iq_question_id q = ib_question_id body) (iv_questions interview)")
        case None
        with Some valid found show ?thesis
          by (simp add: InterviewController_submitAnswer_def)
      next
        case question: (Some question)
        define aiAnalysis where "aiAnalysis = analyzeAnswer
            \<lparr>rq_question = iq_question_text question, rq_user_answer = ib_answer body,
             rq_expected_keywords = iq_expected_keywords question\<rparr>"
        show ?thesis
        proof (cases "rs_score aiAnalysis")
          case NaN
          with Some valid found question show ?thesis
            by (simp add: InterviewController_submitAnswer_def aiAnalysis_def Let_def)
        next
          case (Fin score)
          define questions' where "questions' =
              update_first (\<lambda>q. iq_question_id q = ib_question_id body)
                (\<lambda>q. q\<lparr>iq_user_answer := ib_answer body, iq_time_taken := ib_time_taken body,
                         iq_ai_score := score,
                         iq_keyword_matches := rs_keyword_matches aiAnalysis\<rparr>)
                (iv_questions interview)"
          define interview1 where "interview1 = interview\<lparr>
              iv_questions := questions',
              iv_answered_questions := iv_answered_questions interview + 1,
              iv_average_time_per_question :=
                fdiv (foldl fadd 0 (map iq_time_taken questions')) (of_nat (length questions'))\<rparr>"
          define interview' where "interview' = Interview_pre_save False now interview1"
          define nq where "nq =
              (if findIndex (\<lambda>q. iq_question_id q = ib_question_id body)
                    (iv_questions interview') < int (length (iv_questions interview')) - 1
               then Some (iq_question_id (iv_questions interview' !
                      nat (findIndex (\<lambda>q. iq_question_id q = ib_question_id body)
                             (iv_questions interview') + 1)))
               else None)"
          define r where "r = \<lparr>ir_score = score, ir_next_question = nq,
                           ir_is_complete = (nq = None),
                           ir_current_score = calculateOverallScore interview',
                           ir_answered = answeredQuestions interview',
                           ir_total = totalQuestions interview'\<rparr>"
          have "length questions' = length (iv_questions interview)"
            by (simp add: questions'_def update_first_length)
          with find_Some_nonempty [OF question] have "questions' \<noteq> []"
            by (cases questions') auto
          then have ne: "iv_questions interview1 \<noteq> []"
            by (simp add: interview1_def)
          have keep: "iv_id interview' = iv_id interview"
            "iv_session_id interview' = iv_session_id interview"
            "iv_difficulty interview' = iv_difficulty interview"
            "iv_questions interview' = questions'"
            by (simp_all add: interview'_def Interview_pre_save_keeps)
              (simp_all add: interview1_def)
          have answered: "iv_answered_questions interview' = int (answeredQuestions interview')"
            unfolding interview'_def by (rule Interview_pre_save_answered [OF ne])
          have unfold: "InterviewController_submitAnswer user body now interviews =
              (if validate_interview interview1
               then (Inr r,
                     map (\<lambda>d. if iv_id d = iv_id interview' then interview' else d) interviews)
               else (Inl INTERNAL_SERVER_ERROR, interviews))"
            unfolding InterviewController_submitAnswer_def Interview_save_def Let_def
            using Some valid found question Fin
            by (simp add: r_def nq_def interview'_def interview1_def questions'_def
                aiAnalysis_def)
          show ?thesis
          proof (cases "validate_interview interview1")
            case False
            then show ?thesis
              by (simp add: unfold)
          next
            case True
            have "InterviewController_submitAnswer user body now interviews =
                    (Inr r, map (\<lambda>d. if iv_id d = iv_id interview then interview' else d)
                              interviews)"
              using True by (simp add: unfold keep)
            moreover have "iv_questions interview' =
                update_first (\<lambda>q. iq_question_id q = ib_question_id body)
                  (\<lambda>q. q\<lparr>iq_user_answer := ib_answer body, iq_time_taken := ib_time_taken body,
                           iq_ai_score := ir_score r,
                           iq_keyword_matches := rs_keyword_matches aiAnalysis\<rparr>)
                  (iv_questions interview)"
              by (simp add: keep questions'_def r_def)
            moreover have "iv_questions interview' \<noteq> []"
              using \<open>questions' \<noteq> []\<close> by (simp add: keep)
            moreover have "ir_current_score r = calculateOverallScore interview'"
              "ir_answered r = answeredQuestions interview'"
              "ir_total r = totalQuestions interview'"
              by (simp_all add: r_def)
            ultimately show ?thesis
              using found keep(1,2,3) answered by blast
          qed
        qed
      qed
    qed
  qed
qed

section \<open>Interviews: the total score\<close>

lemma trim_Nil: "trim [] = []"
  by (simp add: trim_def)

lemma answered_iff:
  "(iq_user_answer q \<noteq> [] \<and> trim (iq_user_answer q) \<noteq> []) =
   (trim (iq_user_answer q) \<noteq> [])"
  using trim_Nil by (cases "iq_user_answer q") auto

lemma binary64_weights: "binary64 1 = 1" "binary64 (3 / 2) = 3 / 2"
  by code_simp+

text \<open>The method \<open>calculateOverallScore\<close> computes the amended formula.\<close>

lemma calculateOverallScore_eq:
  "calculateOverallScore i = amended_total_score (iv_difficulty i) (iv_questions i)"
proof (cases "iv_questions i = []")
  case True
  then show ?thesis
    by (simp add: calculateOverallScore_def amended_total_score_def)
next
  case False
  then show ?thesis
    by (cases "iv_difficulty i")
      (simp_all add: calculateOverallScore_def amended_total_score_def completionRate_def
        completion_rate_def totalQuestions_def answeredQuestions_def answered_iff
        binary64_weights Let_def)
qed

text \<open>
  C7 (as stated, refuted).  For a beginner interview of three questions, two of them
  answered with score 100, the method that computes the total score returns 45, from
  the completion rate 67 percent, where the mean times the weight times the fraction
  2/3 rounds to 44.
\<close>

theorem total_score_uses_rounded_completion_rate:
  "calculateOverallScore
     \<lparr>iv_id = 1, iv_user_id = 7, iv_session_id = ''s1'', iv_difficulty = beginner,
       iv_questions =
         [\<lparr>iq_question_id = ''q1'', iq_question_text = ''Explain recursion'',
            iq_question_type = technical, iq_expected_keywords = [''function''],
            iq_time_allocated = 120, iq_time_taken = 60, iq_user_answer = ''answer one'',
            iq_ai_score = 100, iq_keyword_matches = 1\<rparr>,
          \<lparr>iq_question_id = ''q2'', iq_question_text = ''Describe a stack'',
            iq_question_type = technical, iq_expected_keywords = [''LIFO''],
            iq_time_allocated = 120, iq_time_taken = 60, iq_user_answer = ''answer two'',
            iq_ai_score = 100, iq_keyword_matches = 1\<rparr>,
          \<lparr>iq_question_id = ''q3'', iq_question_text = ''Compare arrays and lists'',
            iq_question_type = technical, iq_expected_keywords = [''index''],
            iq_time_allocated = 120, iq_time_taken = 0, iq_user_answer = [],
            iq_ai_score = 0, iq_keyword_matches = 0\<rparr>],
       iv_overall_feedback = None, iv_completion_rate = 67, iv_answered_questions = 2,
       iv_average_time_per_question = 40, iv_metadata_completed_at = None,
       iv_status = in_progress, iv_completed_at = None\<rparr> = 45 \<and>
   claimed_total_score
     \<lparr>iv_id = 1, iv_user_id = 7, iv_session_id = ''s1'', iv_difficulty = beginner,
       iv_questions =
         [\<lparr>iq_question_id = ''q1'', iq_question_text = ''Explain recursion'',
            iq_question_type = technical, iq_expected_keywords = [''function''],
            iq_time_allocated = 120, iq_time_taken = 60, iq_user_answer = ''answer one'',
            iq_ai_score = 100, iq_keyword_matches = 1\<rparr>,
          \<lparr>iq_question_id = ''q2'', iq_question_text = ''Describe a stack'',
            iq_question_type = technical, iq_expected_keywords = [''LIFO''],
            iq_time_allocated = 120, iq_time_taken = 60, iq_user_answer = ''answer two'',
            iq_ai_score = 100, iq_keyword_matches = 1\<rparr>,
          \<lparr>iq_question_id = ''q3'', iq_question_text = ''Compare arrays and lists'',
            iq_question_type = technical, iq_expected_keywords = [''index''],
            iq_time_allocated = 120, iq_time_taken = 0, iq_user_answer = [],
            iq_ai_score = 0, iq_keyword_matches = 0\<rparr>],
       iv_overall_feedback = None, iv_completion_rate = 67, iv_answered_questions = 2,
       iv_average_time_per_question = 40, iv_metadata_completed_at = None,
       iv_status = in_progress, iv_completed_at = None\<rparr> = 44"
  by code_simp

text \<open>
  C7 (amended).  For every interview, the total score that the feedback computation
  takes (the method \<open>calculateOverallScore\<close>) is 0 without questions, and otherwise the
  mean of the per-question scores over all questions, times the difficulty weight (1,
  1.2, 1.5), times one hundredth of the completion rate, rounded to the nearest
  integer; the completion rate is the percentage of questions with a non-blank answer,
  itself rounded to an integer, and every step is taken in double arithmetic.
\<close>

theorem total_score_formula:
  "calculateOverallScore i = amended_total_score (iv_difficulty i) (iv_questions i)"
  by (rule calculateOverallScore_eq)

theorem total_score_formula_witness:
  "amended_total_score beginner
         [\<lparr>iq_question_id = ''q1'', iq_question_text = ''Explain recursion'',
            iq_question_type = technical, iq_expected_keywords = [''function''],
            iq_time_allocated = 120, iq_time_taken = 60, iq_user_answer = ''a'',
            iq_ai_score = 50, iq_keyword_matches = 1\<rparr>,
          \<lparr>iq_question_id = ''q2'', iq_question_text = ''Q'', iq_question_type = technical,
            iq_expected_keywords = [], iq_time_allocated = 120, iq_time_taken = 60,
            iq_user_answer = ''a'', iq_ai_score = 50, iq_keyword_matches = 0\<rparr>,
          \<lparr>iq_question_id = ''q3'', iq_question_text = ''Q'', iq_question_type = technical,
            iq_expected_keywords = [], iq_time_allocated = 120, iq_time_taken = 60,
            iq_user_answer = ''a'', iq_ai_score = 50, iq_keyword_matches = 0\<rparr>,
          \<lparr>iq_question_id = ''q4'', iq_question_text = ''Q'', iq_question_type = technical,
            iq_expected_keywords = [], iq_time_allocated = 120, iq_time_taken = 60,
            iq_user_answer = ''a'', iq_ai_score = 50, iq_keyword_matches = 0\<rparr>,
          \<lparr>iq_question_id = ''q5'', iq_question_text = ''Q'', iq_question_type = technical,
            iq_expected_keywords = [], iq_time_allocated = 120, iq_time_taken = 0,
            iq_user_answer = [], iq_ai_score = 50, iq_keyword_matches = 0\<rparr>,
          \<lparr>iq_question_id = ''q6'', iq_question_text = ''Q'', iq_question_type = technical,
            iq_expected_keywords = [], iq_time_allocated = 120, iq_time_taken = 0,
            iq_user_answer = [], iq_ai_score = 50, iq_keyword_matches = 0\<rparr>,
          \<lparr>iq_question_id = ''q7'', iq_question_text = ''Q'', iq_question_type = technical,
            iq_expected_keywords = [], iq_time_allocated = 120, iq_time_taken = 0,
            iq_user_answer = [], iq_ai_score = 50, iq_keyword_matches = 0\<rparr>] = 28"
proof -
  let ?i = "\<lparr>iv_id = 1, iv_user_id = 7, iv_session_id = ''s1'', iv_difficulty = beginner,
       iv_questions =
         [\<lparr>iq_question_id = ''q1'', iq_question_text = ''Explain recursion'',
            iq_question_type = technical, iq_expected_keywords = [''function''],
            iq_time_allocated = 120, iq_time_taken = 60, iq_user_answer = ''a'',
            iq_ai_score = 50, iq_keyword_matches = 1\<rparr>,
          \<lparr>iq_question_id = ''q2'', iq_question_text = ''Q'', iq_question_type = technical,
            iq_expected_keywords = [], iq_time_allocated = 120, iq_time_taken = 60,
            iq_user_answer = ''a'', iq_ai_score = 50, iq_keyword_matches = 0\<rparr>,
          \<lparr>iq_question_id = ''q3'', iq_question_text = ''Q'', iq_question_type = technical,
            iq_expected_keywords = [], iq_time_allocated = 120, iq_time_taken = 60,
            iq_user_answer = ''a'', iq_ai_score = 50, iq_keyword_matches = 0\<rparr>,
          \<lparr>iq_question_id = ''q4'', iq_question_text = ''Q'', iq_question_type = technical,
            iq_expected_keywords = [], iq_time_allocated = 120, iq_time_taken = 60,
            iq_user_answer = ''a'', iq_ai_score = 50, iq_keyword_matches = 0\<rparr>,
          \<lparr>iq_question_id = ''q5'', iq_question_text = ''Q'', iq_question_type = technical,
            iq_expected_keywords = [], iq_time_allocated = 120, iq_time_taken = 0,
            iq_user_answer = [], iq_ai_score = 50, iq_keyword_matches = 0\<rparr>,
          \<lparr>iq_question_id = ''q6'', iq_question_text = ''Q'', iq_question_type = technical,
            iq_expected_keywords = [], iq_time_allocated = 120, iq_time_taken = 0,
            iq_user_answer = [], iq_ai_score = 50, iq_keyword_matches = 0\<rparr>,
          \<lparr>iq_question_id = ''q7'', iq_question_text = ''Q'', iq_question_type = technical,
            iq_expected_keywords = [], iq_time_allocated = 120, iq_time_taken = 0,
            iq_user_answer = [], iq_ai_score = 50, iq_keyword_matches = 0\<rparr>],
       iv_overall_feedback = None, iv_completion_rate = 57, iv_answered_questions = 4,
       iv_average_time_per_question = 40, iv_metadata_completed_at = None,
       iv_status = in_progress, iv_completed_at = None\<rparr>"
  have c: "calculateOverallScore ?i = 28"
    by code_simp
  from total_score_formula [of ?i] c show ?thesis
    by simp
qed

text \<open>
  At a tie the doubles decide: seven questions scored 50, four of them answered, in a
  beginner interview give 50 times 0.57, just below 28.5, hence 28.

  The summary itself is never produced: \<open>generateFeedback\<close> throws before the \<open>save\<close>,
  so \<open>InterviewController.completeInterview\<close> answers with an error whenever it finds
  the session, and the stored interviews stay as they were.
\<close>

lemma completeInterview_fails:
  "\<exists>e. completeInterview user sid reason now interviews = (Inl e, interviews)"
  by (auto simp add: completeInterview_def generateFeedback_def Let_def split: option.splits)

section \<open>The score reported after an answer\<close>

text \<open>
  C2 (as stated, refuted).  In a beginner interview of two questions the first is
  answered and scored 77: the recorded scores are 77 and 0, their mean is 38.5, and
  the aggregate score reported with the answer is 19.
\<close>

theorem reported_interview_score_not_mean:
  "fst (InterviewController_submitAnswer (Some 7)
     \<lparr>ib_session_id = ''s1'', ib_question_id = ''q1'',
       ib_answer = ''A function that calls itself.'', ib_time_taken = 40\<rparr> 2000
     [\<lparr>iv_id = 1, iv_user_id = 7, iv_session_id = ''s1'', iv_difficulty = beginner,
       iv_questions =
         [\<lparr>iq_question_id = ''q1'', iq_question_text = ''Explain recursion'',
            iq_question_type = technical, iq_expected_keywords = [''function''],
            iq_time_allocated = 120, iq_time_taken = 0, iq_user_answer = [],
            iq_ai_score = 0, iq_keyword_matches = 0\<rparr>,
          \<lparr>iq_question_id = ''q2'', iq_question_text = ''Describe a stack'',
            iq_question_type = technical, iq_expected_keywords = [''LIFO''],
            iq_time_allocated = 120, iq_time_taken = 0, iq_user_answer = [],
            iq_ai_score = 0, iq_keyword_matches = 0\<rparr>],
       iv_overall_feedback = None, iv_completion_rate = 0, iv_answered_questions = 0,
       iv_average_time_per_question = 0, iv_metadata_completed_at = None,
       iv_status = in_progress, iv_completed_at = None\<rparr>])
   = Inr \<lparr>ir_score = 77, ir_next_question = Some ''q2'', ir_is_complete = False,
          ir_current_score = 19, ir_answered = 1, ir_total = 2\<rparr> \<and>
   map iq_ai_score (iv_questions (hd (snd (InterviewController_submitAnswer (Some 7)
     \<lparr>ib_session_id = ''s1'', ib_question_id = ''q1'',
       ib_answer = ''A function that calls itself.'', ib_time_taken = 40\<rparr> 2000
     [\<lparr>iv_id = 1, iv_user_id = 7, iv_session_id = ''s1'', iv_difficulty = beginner,
       iv_questions =
         [\<lparr>iq_question_id = ''q1'', iq_question_text = ''Explain recursion'',
            iq_question_type = technical, iq_expected_keywords = [''function''],
            iq_time_allocated = 120, iq_time_taken = 0, iq_user_answer = [],
            iq_ai_score = 0, iq_keyword_matches = 0\<rparr>,
          \<lparr>iq_question_id = ''q2'', iq_question_text = ''Describe a stack'',
            iq_question_type = technical, iq_expected_keywords = [''LIFO''],
            iq_time_allocated = 120, iq_time_taken = 0, iq_user_answer = [],
            iq_ai_score = 0, iq_keyword_matches = 0\<rparr>],
       iv_overall_feedback = None, iv_completion_rate = 0, iv_answered_questions = 0,
       iv_average_time_per_question = 0, iv_metadata_completed_at = None,
       iv_status = in_progress, iv_completed_at = None\<rparr>])))) = [77, 0] \<and>
   mean_score (iv_questions (hd (snd (InterviewController_submitAnswer (Some 7)
     \<lparr>ib_session_id = ''s1'', ib_question_id = ''q1'',
       ib_answer = ''A function that calls itself.'', ib_time_taken = 40\<rparr> 2000
     [\<lparr>iv_id = 1, iv_user_id = 7, iv_session_id = ''s1'', iv_difficulty = beginner,
       iv_questions =
         [\<lparr>iq_question_id = ''q1'', iq_question_text = ''Explain recursion'',
            iq_question_type = technical, iq_expected_keywords = [''function''],
            iq_time_allocated = 120, iq_time_taken = 0, iq_user_answer = [],
            iq_ai_score = 0, iq_keyword_matches = 0\<rparr>,
          \<lparr>iq_question_id = ''q2'', iq_question_text = ''Describe a stack'',
            iq_question_type = technical, iq_expected_keywords = [''LIFO''],
            iq_time_allocated = 120, iq_time_taken = 0, iq_user_answer = [],
            iq_ai_score = 0, iq_keyword_matches = 0\<rparr>],
       iv_overall_feedback = None, iv_completion_rate = 0, iv_answered_questions = 0,
       iv_average_time_per_question = 0, iv_metadata_completed_at = None,
       iv_status = in_progress, iv_completed_at = None\<rparr>])))) = 77 / 2"
  by code_simp

text \<open>
  C2 (amended).  After every successful SubmitAnswer of the interview variant, the
  aggregate score reported is a function of the stored session alone: 0 without
  questions, and otherwise the mean of the per-question scores over all questions,
  times the difficulty weight (1, 1.2, 1.5), times one hundredth of the completion
  rate (the rounded percentage of questions with a non-blank answer), rounded, every
  step in double arithmetic.
\<close>

theorem reported_score_recomputed:
  assumes "InterviewController_submitAnswer user body now interviews = (Inr r, interviews')"
  shows "\<exists>i'\<in>set interviews'. iv_session_id i' = ib_session_id body \<and>
           ir_current_score r = amended_total_score (iv_difficulty i') (iv_questions i')"
proof -
  from InterviewController_submitAnswer_cases [of user body now interviews] assms
  obtain uid interview interview' where
    stored: "interviews' =
               map (\<lambda>d. if iv_id d = iv_id interview then interview' else d) interviews"
    and found: "find (\<lambda>i. iv_session_id i = ib_session_id body \<and> iv_user_id i = uid \<and>
                       iv_status i = in_progress) interviews = Some interview"
    and id: "iv_id interview' = iv_id interview"
    and sid: "iv_session_id interview' = iv_session_id interview"
    and score: "ir_current_score r = calculateOverallScore interview'"
    by auto
  from find_SomeD [OF found] have mem: "interview \<in> set interviews"
    and sid': "iv_session_id interview = ib_session_id body"
    by auto
  have "interview' \<in> set interviews'"
    unfolding stored using saved_member [OF mem, of iv_id interview'] id by simp
  then show ?thesis
    using score sid sid' calculateOverallScore_eq [of interview']
    by (intro bexI [of _ interview']) simp_all
qed

theorem reported_score_recomputed_witness:
  "\<exists>i'\<in>set (snd (InterviewController_submitAnswer (Some 7)
        \<lparr>ib_session_id = ''s1'', ib_question_id = ''q1'',
          ib_answer = ''A function that calls itself.'', ib_time_taken = 40\<rparr> 2000
        [\<lparr>iv_id = 1, iv_user_id = 7, iv_session_id = ''s1'', iv_difficulty = intermediate,
          iv_questions =
            [\<lparr>iq_question_id = ''q1'', iq_question_text = ''Explain recursion'',
               iq_question_type = technical, iq_expected_keywords = [''function''],
               iq_time_allocated = 120, iq_time_taken = 0, iq_user_answer = [],
               iq_ai_score = 0, iq_keyword_matches = 0\<rparr>,
             \<lparr>iq_question_id = ''q2'', iq_question_text = ''Describe a stack'',
               iq_question_type = technical, iq_expected_keywords = [''LIFO''],
               iq_time_allocated = 120, iq_time_taken = 0, iq_user_answer = [],
               iq_ai_score = 0, iq_keyword_matches = 0\<rparr>],
          iv_overall_feedback = None, iv_completion_rate = 0, iv_answered_questions = 0,
          iv_average_time_per_question = 0, iv_metadata_completed_at = None,
          iv_status = in_progress, iv_completed_at = None\<rparr>])).
      iv_session_id i' = ''s1'' \<and>
      amended_total_score (iv_difficulty i') (iv_questions i') = 23"
proof -
  let ?q1 = "\<lparr>iq_question_id = ''q1'', iq_question_text = ''Explain recursion'',
               iq_question_type = technical, iq_expected_keywords = [''function''],
               iq_time_allocated = 120, iq_time_taken = 0, iq_user_answer = [],
               iq_ai_score = 0, iq_keyword_matches = 0\<rparr>"
  let ?q2 = "\<lparr>iq_question_id = ''q2'', iq_question_text = ''Describe a stack'',
               iq_question_type = technical, iq_expected_keywords = [''LIFO''],
               iq_time_allocated = 120, iq_time_taken = 0, iq_user_answer = [],
               iq_ai_score = 0, iq_keyword_matches = 0\<rparr>"
  let ?i = "\<lparr>iv_id = 1, iv_user_id = 7, iv_session_id = ''s1'', iv_difficulty = intermediate,
          iv_questions = [?q1, ?q2],
          iv_overall_feedback = None, iv_completion_rate = 0, iv_answered_questions = 0,
          iv_average_time_per_question = 0, iv_metadata_completed_at = None,
          iv_status = in_progress, iv_completed_at = None\<rparr>"
  let ?ib = "\<lparr>ib_session_id = ''s1'', ib_question_id = ''q1'',
          ib_answer = ''A function that calls itself.'', ib_time_taken = 40\<rparr>"
  let ?ir = "\<lparr>ir_score = 77, ir_next_question = Some ''q2'', ir_is_complete = False,
          ir_current_score = 23, ir_answered = 1, ir_total = 2\<rparr>"
  have h: "InterviewController_submitAnswer (Some 7) ?ib 2000 [?i] =
             (Inr ?ir, snd (InterviewController_submitAnswer (Some 7) ?ib 2000 [?i]))"
    by code_simp
  from reported_score_recomputed [OF h] show ?thesis
    by simp
qed

section \<open>Answered questions and the total\<close>

lemma answeredQuestions_le_total: "answeredQuestions i \<le> totalQuestions i"
  by (simp add: answeredQuestions_def totalQuestions_def)

text \<open>
  C5.  After every SubmitAnswer call, whatever its outcome, the number of answered
  questions of a stored session does not exceed its total.  For an interview the
  answered questions are those with a non-blank answer, and the stored counter, which
  the controller increments on every call, is set back to their number when the
  session is saved; the progress reported on success has the same bound.  For a test
  the recorded answers are counted, and no call changes them.
\<close>

theorem answered_never_exceeds_total:
  "((\<forall>i\<in>set interviews. iv_answered_questions i \<le> int (totalQuestions i)) \<longrightarrow>
      (\<forall>i'\<in>set (snd (InterviewController_submitAnswer user ibody now interviews)).
          answeredQuestions i' \<le> totalQuestions i' \<and>
          iv_answered_questions i' \<le> int (totalQuestions i'))) \<and>
   (\<forall>r. fst (InterviewController_submitAnswer user ibody now interviews) = Inr r \<longrightarrow>
      ir_answered r \<le> ir_total r) \<and>
   ((\<forall>s\<in>set sessions. int (length (ts_answers s)) \<le> ts_total_questions s) \<longrightarrow>
      (\<forall>s'\<in>set (snd (TestController_submitAnswer user tbody tests sessions)).
          int (length (ts_answers s')) \<le> ts_total_questions s'))"
proof (intro conjI impI allI)
  assume inv: "\<forall>i\<in>set interviews. iv_answered_questions i \<le> int (totalQuestions i)"
  from InterviewController_submitAnswer_cases [of user ibody now interviews]
  show "\<forall>i'\<in>set (snd (InterviewController_submitAnswer user ibody now interviews)).
          answeredQuestions i' \<le> totalQuestions i' \<and>
          iv_answered_questions i' \<le> int (totalQuestions i')"
  proof
    assume "\<exists>e. InterviewController_submitAnswer user ibody now interviews = (Inl e, interviews)"
    with inv show ?thesis
      using answeredQuestions_le_total by auto
  next
    assume "\<exists>r uid interview interview' km.
      InterviewController_submitAnswer user ibody now interviews =
        (Inr r, map (\<lambda>d. if iv_id d = iv_id interview then interview' else d) interviews) \<and>
      find (\<lambda>i. iv_session_id i = ib_session_id ibody \<and> iv_user_id i = uid \<and>
                 iv_status i = in_progress) interviews = Some interview \<and>
      iv_id interview' = iv_id interview \<and>
      iv_session_id interview' = iv_session_id interview \<and>
      iv_difficulty interview' = iv_difficulty interview \<and>
      iv_questions interview' =
        update_first (\<lambda>q. iq_question_id q = ib_question_id ibody)
          (\<lambda>q. q\<lparr>iq_user_answer := ib_answer ibody, iq_time_taken := ib_time_taken ibody,
                   iq_ai_score := ir_score r, iq_keyword_matches := km\<rparr>)
          (iv_questions interview) \<and>
      iv_questions interview' \<noteq> [] \<and>
      iv_answered_questions interview' = int (answeredQuestions interview') \<and>
      ir_current_score r = calculateOverallScore interview' \<and>
      ir_answered r = answeredQuestions interview' \<and>
      ir_total r = totalQuestions interview'"
    then show ?thesis
    proof (elim exE conjE)
      fix r interview interview'
      assume res: "InterviewController_submitAnswer user ibody now interviews =
        (Inr r, map (\<lambda>d. if iv_id d = iv_id interview then interview' else d) interviews)"
        and counter: "iv_answered_questions interview' = int (answeredQuestions interview')"
      have "iv_answered_questions interview' \<le> int (totalQuestions interview')"
        using counter answeredQuestions_le_total [of interview'] by simp
      with inv show ?thesis
        unfolding res snd_conv using answeredQuestions_le_total by auto
    qed
  qed
next
  fix r
  assume "fst (InterviewController_submitAnswer user ibody now interviews) = Inr r"
  with InterviewController_submitAnswer_cases [of user ibody now interviews]
  show "ir_answered r \<le> ir_total r"
    using answeredQuestions_le_total by auto
next
  assume "\<forall>s\<in>set sessions. int (length (ts_answers s)) \<le> ts_total_questions s"
  with TestController_submitAnswer_fails [of user tbody tests sessions]
  show "\<forall>s'\<in>set (snd (TestController_submitAnswer user tbody tests sessions)).
          int (length (ts_answers s')) \<le> ts_total_questions s'"
    by auto
qed

theorem answered_never_exceeds_total_witness:
  "iv_answered_questions (hd (snd (InterviewController_submitAnswer (Some 7)
      \<lparr>ib_session_id = ''s1'', ib_question_id = ''q1'',
        ib_answer = ''A function that calls itself.'', ib_time_taken = 40\<rparr> 2000
      [\<lparr>iv_id = 1, iv_user_id = 7, iv_session_id = ''s1'', iv_difficulty = beginner,
        iv_questions =
          [\<lparr>iq_question_id = ''q1'', iq_question_text = ''Explain recursion'',
             iq_question_type = technical, iq_expected_keywords = [''function''],
             iq_time_allocated = 120, iq_time_taken = 60, iq_user_answer = ''first answer'',
             iq_ai_score = 50, iq_keyword_matches = 0\<rparr>],
        iv_overall_feedback = None, iv_completion_rate = 100, iv_answered_questions = 1,
        iv_average_time_per_question = 60, iv_metadata_completed_at = None,
        iv_status = in_progress, iv_completed_at = None\<rparr>]))) \<le> 1 \<and>
   (\<exists>r. fst (InterviewController_submitAnswer (Some 7)
      \<lparr>ib_session_id = ''s1'', ib_question_id = ''q1'',
        ib_answer = ''A function that calls itself.'', ib_time_taken = 40\<rparr> 2000
      [\<lparr>iv_id = 1, iv_user_id = 7, iv_session_id = ''s1'', iv_difficulty = beginner,
        iv_questions =
          [\<lparr>iq_question_id = ''q1'', iq_question_text = ''Explain recursion'',
             iq_question_type = technical, iq_expected_keywords = [''function''],
             iq_time_allocated = 120, iq_time_taken = 60, iq_user_answer = ''first answer'',
             iq_ai_score = 50, iq_keyword_matches = 0\<rparr>],
        iv_overall_feedback = None, iv_completion_rate = 100, iv_answered_questions = 1,
        iv_average_time_per_question = 60, iv_metadata_completed_at = None,
        iv_status = in_progress, iv_completed_at = None\<rparr>]) = Inr r \<and>
      ir_answered r \<le> 1 \<and> ir_total r = 1) \<and>
   length (ts_answers (hd (snd (TestController_submitAnswer (Some 7)
      \<lparr>tb_session_id = ''t1'', tb_question_id = ''q1'', tb_answer = JNum 0,
        tb_time_spent = 10\<rparr>
      [\<lparr>t_id = 1, t_questions =
          [\<lparr>tq_question_id = ''q1'', tq_question_type = multiple_choice,
            tq_correct_answer = JNum 1, tq_points = 2\<rparr>], t_passing_score = 70\<rparr>]
      [\<lparr>ts_id = 1, ts_user_id = 7, ts_test_id = 1, ts_session_id = ''t1'',
        ts_answers = [], ts_score = 0, ts_total_questions = 1, ts_correct_answers = 0,
        ts_time_spent = 0, ts_status = in_progress, ts_completed_at = None\<rparr>])))) \<le> 1"
proof -
  let ?q = "\<lparr>iq_question_id = ''q1'', iq_question_text = ''Explain recursion'',
             iq_question_type = technical, iq_expected_keywords = [''function''],
             iq_time_allocated = 120, iq_time_taken = 60, iq_user_answer = ''first answer'',
             iq_ai_score = 50, iq_keyword_matches = 0\<rparr>"
  let ?i = "\<lparr>iv_id = 1, iv_user_id = 7, iv_session_id = ''s1'', iv_difficulty = beginner,
        iv_questions = [?q],
        iv_overall_feedback = None, iv_completion_rate = 100, iv_answered_questions = 1,
        iv_average_time_per_question = 60, iv_metadata_completed_at = None,
        iv_status = in_progress, iv_completed_at = None\<rparr>"
  let ?ib = "\<lparr>ib_session_id = ''s1'', ib_question_id = ''q1'',
        ib_answer = ''A function that calls itself.'', ib_time_taken = 40\<rparr>"
  let ?t = "\<lparr>t_id = 1, t_questions =
          [\<lparr>tq_question_id = ''q1'', tq_question_type = multiple_choice,
            tq_correct_answer = JNum 1, tq_points = 2\<rparr>], t_passing_score = 70\<rparr>"
  let ?s = "\<lparr>ts_id = 1, ts_user_id = 7, ts_test_id = 1, ts_session_id = ''t1'',
        ts_answers = [], ts_score = 0, ts_total_questions = 1, ts_correct_answers = 0,
        ts_time_spent = 0, ts_status = in_progress, ts_completed_at = None\<rparr>"
  let ?tb = "\<lparr>tb_session_id = ''t1'', tb_question_id = ''q1'', tb_answer = JNum 0,
        tb_time_spent = 10\<rparr>"
  let ?R = "InterviewController_submitAnswer (Some 7) ?ib 2000 [?i]"
  let ?T = "TestController_submitAnswer (Some 7) ?tb [?t] [?s]"
  note inst = answered_never_exceeds_total
    [where interviews = "[?i]" and user = "Some 7" and ibody = ?ib and now = 2000
       and sessions = "[?s]" and tbody = ?tb and tests = "[?t]"]
  have h1: "\<forall>i\<in>set [?i]. iv_answered_questions i \<le> int (totalQuestions i)"
    by (simp add: totalQuestions_def)
  have h2: "\<forall>s\<in>set [?s]. int (length (ts_answers s)) \<le> ts_total_questions s"
    by simp
  have f: "fst ?R = Inr \<lparr>ir_score = 77, ir_next_question = None, ir_is_complete = True,
                          ir_current_score = 77, ir_answered = 1, ir_total = 1\<rparr>"
    by code_simp
  have m1: "hd (snd ?R) \<in> set (snd ?R)"
    by code_simp
  have m2: "hd (snd ?T) \<in> set (snd ?T)"
    by code_simp
  have t1: "totalQuestions (hd (snd ?R)) = 1"
    by code_simp
  have t2: "ts_total_questions (hd (snd ?T)) = 1"
    by code_simp
  from inst [THEN conjunct1, THEN mp, OF h1, THEN bspec, OF m1] t1
  have a: "iv_answered_questions (hd (snd ?R)) \<le> 1"
    by simp
  from inst [THEN conjunct2, THEN conjunct1, THEN spec, THEN mp, OF f]
  have "ir_answered \<lparr>ir_score = 77, ir_next_question = None, ir_is_complete = True,
                      ir_current_score = 77, ir_answered = 1, ir_total = 1\<rparr> \<le> 1"
    by simp
  with f have b: "\<exists>r. fst ?R = Inr r \<and> ir_answered r \<le> 1 \<and> ir_total r = 1"
    by (intro exI [of _ "\<lparr>ir_score = 77, ir_next_question = None, ir_is_complete = True,
                      ir_current_score = 77, ir_answered = 1, ir_total = 1\<rparr>"]) simp
  from inst [THEN conjunct2, THEN conjunct2, THEN mp, OF h2, THEN bspec, OF m2] t2
  have c: "length (ts_answers (hd (snd ?T))) \<le> 1"
    by simp
  from a b c show ?thesis
    by (intro conjI)
qed

section \<open>Interviews: a later answer takes the place of the earlier one\<close>

text \<open>
  A successful \<open>InterviewController.submitAnswer\<close> keeps the questions of the stored
  interview in place, one slot for each as before, and writes the answer, the time
  and the score into the first slot of the question submitted, over what was there.
\<close>

lemma interview_answer_overwrites_slot:
  assumes "InterviewController_submitAnswer user body now interviews = (Inr r, interviews')"
  shows "\<exists>i\<in>set interviews. \<exists>i'\<in>set interviews'. \<exists>km.
           iv_id i' = iv_id i \<and> iv_session_id i' = ib_session_id body \<and>
           map iq_question_id (iv_questions i') = map iq_question_id (iv_questions i) \<and>
           find (\<lambda>q. iq_question_id q = ib_question_id body) (iv_questions i') =
             map_option
               (\<lambda>q. q\<lparr>iq_user_answer := ib_answer body, iq_time_taken := ib_time_taken body,
                        iq_ai_score := ir_score r, iq_keyword_matches := km\<rparr>)
               (find (\<lambda>q. iq_question_id q = ib_question_id body) (iv_questions i))"
proof -
  from InterviewController_submitAnswer_cases [of user body now interviews] assms
  obtain uid interview interview' km where
    stored: "interviews' =
               map (\<lambda>d. if iv_id d = iv_id interview then interview' else d) interviews"
    and found: "find (\<lambda>i. iv_session_id i = ib_session_id body \<and> iv_user_id i = uid \<and>
                       iv_status i = in_progress) interviews = Some interview"
    and id: "iv_id interview' = iv_id interview"
    and sid: "iv_session_id interview' = iv_session_id interview"
    and qs: "iv_questions interview' =
        update_first (\<lambda>q. iq_question_id q = ib_question_id body)
          (\<lambda>q. q\<lparr>iq_user_answer := ib_answer body, iq_time_taken := ib_time_taken body,
                   iq_ai_score := ir_score r, iq_keyword_matches := km\<rparr>)
          (iv_questions interview)"
    by auto
  from find_SomeD [OF found] have mem: "interview \<in> set interviews"
    and sid': "iv_session_id interview = ib_session_id body"
    by auto
  have mem': "interview' \<in> set interviews'"
    unfolding stored using saved_member [OF mem, of iv_id interview'] id by simp
  have ids: "map iq_question_id (iv_questions interview') =
               map iq_question_id (iv_questions interview)"
    unfolding qs by (rule update_first_ids) simp
  have slot: "find (\<lambda>q. iq_question_id q = ib_question_id body) (iv_questions interview') =
             map_option
               (\<lambda>q. q\<lparr>iq_user_answer := ib_answer body, iq_time_taken := ib_time_taken body,
                        iq_ai_score := ir_score r, iq_keyword_matches := km\<rparr>)
               (find (\<lambda>q. iq_question_id q = ib_question_id body) (iv_questions interview))"
    unfolding qs by (rule update_first_find) simp
  from id sid sid' ids slot
  have "\<exists>km. iv_id interview' = iv_id interview \<and>
           iv_session_id interview' = ib_session_id body \<and>
           map iq_question_id (iv_questions interview') =
             map iq_question_id (iv_questions interview) \<and>
           find (\<lambda>q. iq_question_id q = ib_question_id body) (iv_questions interview') =
             map_option
               (\<lambda>q. q\<lparr>iq_user_answer := ib_answer body, iq_time_taken := ib_time_taken body,
                        iq_ai_score := ir_score r, iq_keyword_matches := km\<rparr>)
               (find (\<lambda>q. iq_question_id q = ib_question_id body) (iv_questions interview))"
    by (intro exI [of _ km]) simp
  from this mem'
  have "\<exists>i'\<in>set interviews'. \<exists>km. iv_id i' = iv_id interview \<and>
           iv_session_id i' = ib_session_id body \<and>
           map iq_question_id (iv_questions i') =
             map iq_question_id (iv_questions interview) \<and>
           find (\<lambda>q. iq_question_id q = ib_question_id body) (iv_questions i') =
             map_option
               (\<lambda>q. q\<lparr>iq_user_answer := ib_answer body, iq_time_taken := ib_time_taken body,
                        iq_ai_score := ir_score r, iq_keyword_matches := km\<rparr>)
               (find (\<lambda>q. iq_question_id q = ib_question_id body) (iv_questions interview))"
    by (rule bexI)
  from this mem show ?thesis
    by (rule bexI)
qed

end
